theory Spec2Isabelle
  imports Complex_Main "HOL-Library.Multiset"
begin

section \<open>Data model\<close>

text \<open>
  The notebook \<^verbatim>\<open>Fraud_Detection_Exercise.ipynb\<close> defines three functions over a
  pandas table of credit-card transactions: \<^verbatim>\<open>fraudulent_percentage\<close>,
  \<^verbatim>\<open>train_test_split\<close> and \<^verbatim>\<open>evaluate\<close>. Cell values are numbers,
  modelled as exact reals; the functions move and compare them, and the two quotients of
  row counts are exact quotients. The one computation on a caller's float, the size of the
  training partition, is modelled in float64 arithmetic. Exceptions are values of
  \<open>py_error\<close>.
\<close>

datatype py_error = KeyError | ZeroDivisionError | IndexError | ValueError

datatype dtype = Int64 | Float64

text \<open>
  A DataFrame: column labels, one dtype per column, and the rows in index order. A frame
  is rectangular and, as \<^verbatim>\<open>read_csv\<close> delivers it, has distinct column labels.
\<close>

record dataframe =
  columns :: "string list"
  dtypes :: "dtype list"
  rows :: "real list list"

definition wf_df :: "dataframe \<Rightarrow> bool" where
  "wf_df df \<longleftrightarrow>
     distinct (columns df) \<and> length (dtypes df) = length (columns df) \<and>
     list_all (\<lambda>r. length r = length (columns df)) (rows df)"

section \<open>Fraud ratio\<close>

text \<open>
  \<^verbatim>\<open>
  def fraudulent_percentage(transaction_df):
      return transaction_df[transaction_df['Class']==1].shape[0]/transaction_df.shape[0]
  \<close>
  \<^verbatim>\<open>transaction_df['Class']\<close> raises KeyError when there is no such column; the
  comparison gives a boolean mask, the mask selects rows, and the quotient of the two
  row counts is Python's true division of ints, which raises ZeroDivisionError on 0.
\<close>

fun get_loc :: "string \<Rightarrow> string list \<Rightarrow> nat option" where
  "get_loc c [] = None"
| "get_loc c (x # xs) = (if x = c then Some 0 else map_option Suc (get_loc c xs))"

definition getitem_column :: "dataframe \<Rightarrow> string \<Rightarrow> py_error + real list" where
  "getitem_column df c =
     (case get_loc c (columns df) of
        None \<Rightarrow> Inl KeyError
      | Some i \<Rightarrow> Inr (map (\<lambda>r. r ! i) (rows df)))"

definition getitem_mask :: "dataframe \<Rightarrow> bool list \<Rightarrow> real list list" where
  "getitem_mask df flags = map fst (filter snd (zip (rows df) flags))"

definition py_truediv :: "nat \<Rightarrow> nat \<Rightarrow> py_error + real" where
  "py_truediv a b = (if b = 0 then Inl ZeroDivisionError else Inr (real a / real b))"

definition fraudulent_percentage :: "dataframe \<Rightarrow> py_error + real" where
  "fraudulent_percentage transaction_df =
     (case getitem_column transaction_df ''Class'' of
        Inl e \<Rightarrow> Inl e
      | Inr cls \<Rightarrow>
          py_truediv (length (getitem_mask transaction_df (map (\<lambda>v. v = 1) cls)))
                     (length (rows transaction_df)))"

section \<open>Train/test split\<close>

text \<open>
  \<^verbatim>\<open>
  def train_test_split(transaction_df, test_size=0.3, seed=1):
      matrix_df = transaction_df.values
      np.random.seed(seed)
      np.random.shuffle(matrix_df)

      train_size = int(len(matrix_df) * (1 - test_size))
      train_features = matrix_df[:train_size, :-1]
      train_labels = matrix_df[:train_size, -1]
      test_features = matrix_df[train_size:, :-1]
      test_labels = matrix_df[train_size:, -1]

      return (train_features, train_labels), (test_features, test_labels)
  \<close>
  The function works on two pieces of state outside itself: numpy's global generator,
  which \<^verbatim>\<open>np.random.seed\<close> resets and \<^verbatim>\<open>np.random.shuffle\<close> advances, and
  the caller's table object, whose storage \<^verbatim>\<open>.values\<close> may hand out.
\<close>

text \<open>
  numpy's generator is a library, taken as a parameter: the state that a seed fixes, and
  for a state and a row count the order in which \<^verbatim>\<open>shuffle\<close> leaves the rows
  (position \<open>k\<close> of the result holds the old row \<open>order ! k\<close>) with the state afterwards.
\<close>

record 'g numpy_random =
  seed_state :: "int \<Rightarrow> 'g"
  shuffle_order :: "'g \<Rightarrow> nat \<Rightarrow> nat list \<times> 'g"

record 'g world =
  np_rng :: 'g
  transaction_df :: dataframe

text \<open>
  \<^verbatim>\<open>DataFrame.values\<close>: a frame whose columns all have one dtype keeps them in a
  single block and \<^verbatim>\<open>.values\<close> is a view of that block; with more than one dtype
  the columns are interleaved into a new array.
\<close>

definition values_shares_memory :: "dataframe \<Rightarrow> bool" where
  "values_shares_memory df =
     (case dtypes df of [] \<Rightarrow> False | d # ds \<Rightarrow> list_all (\<lambda>e. e = d) ds)"

text \<open>\<^verbatim>\<open>np.random.seed\<close> accepts seeds from 0 to 2**32 - 1 and raises ValueError otherwise.\<close>

definition np_random_seed :: "'g numpy_random \<Rightarrow> int \<Rightarrow> py_error + 'g" where
  "np_random_seed np seed =
     (if seed < 0 \<or> 2 ^ 32 \<le> seed then Inl ValueError else Inr (seed_state np seed))"

definition np_random_shuffle :: "'g numpy_random \<Rightarrow> 'g \<Rightarrow> 'a list \<Rightarrow> 'a list \<times> 'g" where
  "np_random_shuffle np g xs =
     (case shuffle_order np g (length xs) of
        (order, g') \<Rightarrow> (map (\<lambda>i. xs ! i) order, g'))"

text \<open>
  \<^verbatim>\<open>test_size\<close> is a Python number, an int or a float. A float is a float64:
  \<open>Dyadic m e\<close> stands for \<open>m * 2 ^ e\<close>, and a float64 value has a mantissa below
  \<open>2 ^ 53\<close> in magnitude. Every float operation gives the exact result rounded to 53
  significant bits, ties to the even mantissa. The exponent is not bounded in the model:
  overflow to infinity, subnormal numbers, infinities and \<open>nan\<close> are left out.
\<close>

datatype float64 = Dyadic int int

function bit_length :: "int \<Rightarrow> nat" where
  "bit_length a = (if a \<le> 0 then 0 else Suc (bit_length (a div 2)))"
  by pat_completeness auto
termination
  by (relation "measure nat") auto

declare bit_length.simps [simp del]

definition round_to_float64 :: "int \<Rightarrow> int \<Rightarrow> float64" where
  "round_to_float64 m e =
     (let a = \<bar>m\<bar>;
          excess = int (bit_length a) - 53
      in if excess \<le> 0 then Dyadic m e
         else let q = a div 2 ^ nat excess;
                  r = a mod 2 ^ nat excess;
                  half = 2 ^ (nat excess - 1);
                  q' = (if half < r \<or> (r = half \<and> odd q) then q + 1 else q)
              in Dyadic (sgn m * q') (e + excess))"

definition float_of_int :: "int \<Rightarrow> float64" where
  "float_of_int k = round_to_float64 k 0"

fun float_sub :: "float64 \<Rightarrow> float64 \<Rightarrow> float64" where
  "float_sub (Dyadic m1 e1) (Dyadic m2 e2) =
     (let e = min e1 e2
      in round_to_float64 (m1 * 2 ^ nat (e1 - e) - m2 * 2 ^ nat (e2 - e)) e)"

fun float_mul :: "float64 \<Rightarrow> float64 \<Rightarrow> float64" where
  "float_mul (Dyadic m1 e1) (Dyadic m2 e2) = round_to_float64 (m1 * m2) (e1 + e2)"

text \<open>\<^verbatim>\<open>int(x)\<close> of a float truncates towards zero.\<close>

fun float_trunc :: "float64 \<Rightarrow> int" where
  "float_trunc (Dyadic m e) =
     (if 0 \<le> e then m * 2 ^ nat e else sgn m * (\<bar>m\<bar> div 2 ^ nat (- e)))"

text \<open>
  Python's arithmetic on numbers: ints are exact, and an int that meets a float is
  converted to a float first.
\<close>

datatype py_number = PyInt int | PyFloat float64

fun py_sub :: "py_number \<Rightarrow> py_number \<Rightarrow> py_number" where
  "py_sub (PyInt a) (PyInt b) = PyInt (a - b)"
| "py_sub (PyInt a) (PyFloat y) = PyFloat (float_sub (float_of_int a) y)"
| "py_sub (PyFloat x) (PyInt b) = PyFloat (float_sub x (float_of_int b))"
| "py_sub (PyFloat x) (PyFloat y) = PyFloat (float_sub x y)"

fun py_mul :: "py_number \<Rightarrow> py_number \<Rightarrow> py_number" where
  "py_mul (PyInt a) (PyInt b) = PyInt (a * b)"
| "py_mul (PyInt a) (PyFloat y) = PyFloat (float_mul (float_of_int a) y)"
| "py_mul (PyFloat x) (PyInt b) = PyFloat (float_mul x (float_of_int b))"
| "py_mul (PyFloat x) (PyFloat y) = PyFloat (float_mul x y)"

fun py_int :: "py_number \<Rightarrow> int" where
  "py_int (PyInt a) = a"
| "py_int (PyFloat x) = float_trunc x"

text \<open>
  A slice bound \<open>k\<close> against a length \<open>n\<close>: negative bounds count from the end, and
  every bound is clamped into \<open>0..n\<close>.
\<close>

definition slice_index :: "int \<Rightarrow> nat \<Rightarrow> nat" where
  "slice_index k n = (if k < 0 then nat (max 0 (int n + k)) else min (nat k) n)"

definition slice_to :: "int \<Rightarrow> 'a list \<Rightarrow> 'a list" where
  "slice_to k xs = take (slice_index k (length xs)) xs"

definition slice_from :: "int \<Rightarrow> 'a list \<Rightarrow> 'a list" where
  "slice_from k xs = drop (slice_index k (length xs)) xs"

type_synonym split_result = "(real list list \<times> real list) \<times> (real list list \<times> real list)"

text \<open>
  The column index \<^verbatim>\<open>-1\<close> is checked against the width of the matrix, and raises
  IndexError for a matrix without columns; the slice \<^verbatim>\<open>:-1\<close> never raises. Both
  happen after the shuffle, so the state is the shuffled one either way.
\<close>

definition train_test_split ::
  "'g numpy_random \<Rightarrow> 'g world \<Rightarrow> py_number \<Rightarrow> int \<Rightarrow> (py_error + split_result) \<times> 'g world" where
  "train_test_split np w test_size seed =
     (let df = transaction_df w;
          matrix_df = rows df
      in case np_random_seed np seed of
           Inl e \<Rightarrow> (Inl e, w)
         | Inr g0 \<Rightarrow>
            (case np_random_shuffle np g0 matrix_df of
               (shuffled, g1) \<Rightarrow>
                 let w' = \<lparr>np_rng = g1,
                           transaction_df =
                             (if values_shares_memory df then df\<lparr>rows := shuffled\<rparr> else df)\<rparr>;
                     train_size = py_int (py_mul (PyInt (int (length shuffled))) (py_sub (PyInt 1) test_size));
                     train_features = map butlast (slice_to train_size shuffled);
                     train_labels = map last (slice_to train_size shuffled);
                     test_features = map butlast (slice_from train_size shuffled);
                     test_labels = map last (slice_from train_size shuffled)
                 in if columns df = [] then (Inl IndexError, w')
                    else (Inr ((train_features, train_labels), (test_features, test_labels)), w')))"

text \<open>
  The order that the generator produces for a seed and a row count is a rearrangement of
  the positions \<open>0..<n\<close>; this is what the library's shuffle guarantees.
\<close>

definition shuffle_ok :: "'g numpy_random \<Rightarrow> int \<Rightarrow> nat \<Rightarrow> bool" where
  "shuffle_ok np seed n \<longleftrightarrow> sort (fst (shuffle_order np (seed_state np seed) n)) = [0..<n]"

section \<open>Evaluation\<close>

text \<open>
  \<^verbatim>\<open>
  def evaluate(predictor, test_features, test_labels, verbose=True):
      prediction_batches = [predictor.predict(batch) for batch in np.array_split(test_features, 100)]
      test_preds = np.concatenate([np.array([x.label['predicted_label'].float32_tensor.values[0] for x in batch])
                                   for batch in prediction_batches])
      tp = np.logical_and(test_labels, test_preds).sum()
      fp = np.logical_and(1-test_labels, test_preds).sum()
      tn = np.logical_and(1-test_labels, 1-test_preds).sum()
      fn = np.logical_and(test_labels, 1-test_preds).sum()
      recall = tp / (tp + fn)
      precision = tp / (tp + fp)
      accuracy = (tp + tn) / (tp + fp + tn + fn)
      ...
      return {'TP': tp, 'FP': fp, 'FN': fn, 'TN': tn,
              'Precision': precision, 'Recall': recall, 'Accuracy': accuracy}
  \<close>
  The predictor is the deployed endpoint, a parameter here: for a batch of feature rows
  it gives the predicted labels read out of its records. The printed table of the
  verbose branch is output only and is not modelled.
\<close>

text \<open>
  \<^verbatim>\<open>np.array_split(a, m)\<close>: \<open>m\<close> consecutive pieces, the first \<open>n mod m\<close> of them
  one row longer than the others.
\<close>

fun split_at_sizes :: "nat list \<Rightarrow> 'a list \<Rightarrow> 'a list list" where
  "split_at_sizes [] xs = []"
| "split_at_sizes (k # ks) xs = take k xs # split_at_sizes ks (drop k xs)"

definition array_split :: "'a list \<Rightarrow> nat \<Rightarrow> 'a list list" where
  "array_split xs m =
     (let n = length xs
      in split_at_sizes (replicate (n mod m) (n div m + 1) @ replicate (m - n mod m) (n div m)) xs)"

definition predict_all :: "(real list list \<Rightarrow> real list) \<Rightarrow> real list list \<Rightarrow> real list" where
  "predict_all predictor test_features = concat (map predictor (array_split test_features 100))"

text \<open>
  \<^verbatim>\<open>np.logical_and\<close> of two one-dimensional arrays: elementwise on the truth values
  (non-zero is true); a length-1 array is broadcast, any other length mismatch raises
  ValueError. \<^verbatim>\<open>.sum()\<close> counts the true entries.
\<close>

definition logical_and :: "real list \<Rightarrow> real list \<Rightarrow> py_error + bool list" where
  "logical_and a b =
     (if length a = length b then Inr (map (\<lambda>(x, y). x \<noteq> 0 \<and> y \<noteq> 0) (zip a b))
      else if length a = 1 then Inr (map (\<lambda>y. hd a \<noteq> 0 \<and> y \<noteq> 0) b)
      else if length b = 1 then Inr (map (\<lambda>x. x \<noteq> 0 \<and> hd b \<noteq> 0) a)
      else Inl ValueError)"

definition count_true :: "bool list \<Rightarrow> nat" where
  "count_true bs = length (filter (\<lambda>b. b) bs)"

definition one_minus :: "real list \<Rightarrow> real list" where
  "one_minus xs = map (\<lambda>x. 1 - x) xs"

text \<open>
  The counts are numpy integers, and their quotient is a float64: dividing by zero gives
  \<open>nan\<close> for 0/0 and \<open>inf\<close> otherwise, with a warning and no exception.
\<close>

datatype np_float = Num real | NaN | PosInf

definition np_true_divide :: "nat \<Rightarrow> nat \<Rightarrow> np_float" where
  "np_true_divide a b =
     (if b \<noteq> 0 then Num (real a / real b) else if a = 0 then NaN else PosInf)"

record metrics =
  TP :: nat
  FP :: nat
  FN :: nat
  TN :: nat
  Precision :: np_float
  Recall :: np_float
  Accuracy :: np_float

definition confusion_metrics :: "real list \<Rightarrow> real list \<Rightarrow> py_error + metrics" where
  "confusion_metrics test_labels test_preds =
     (case logical_and test_labels test_preds of Inl e \<Rightarrow> Inl e | Inr a \<Rightarrow>
     (case logical_and (one_minus test_labels) test_preds of Inl e \<Rightarrow> Inl e | Inr b \<Rightarrow>
     (case logical_and (one_minus test_labels) (one_minus test_preds) of Inl e \<Rightarrow> Inl e | Inr c \<Rightarrow>
     (case logical_and test_labels (one_minus test_preds) of Inl e \<Rightarrow> Inl e | Inr d \<Rightarrow>
        (let tp = count_true a; fp = count_true b; tn = count_true c; fn = count_true d;
             recall = np_true_divide tp (tp + fn);
             precision = np_true_divide tp (tp + fp);
             accuracy = np_true_divide (tp + tn) (tp + fp + tn + fn)
         in Inr \<lparr>TP = tp, FP = fp, FN = fn, TN = tn,
                 Precision = precision, Recall = recall, Accuracy = accuracy\<rparr>)))))"

definition evaluate ::
  "(real list list \<Rightarrow> real list) \<Rightarrow> real list list \<Rightarrow> real list \<Rightarrow> py_error + metrics" where
  "evaluate predictor test_features test_labels =
     confusion_metrics test_labels (predict_all predictor test_features)"

section \<open>Notions used in the statements\<close>

text \<open>
  A label sequence is binary when each entry is 0 or 1.
\<close>

definition is_binary :: "real list \<Rightarrow> bool" where
  "is_binary xs \<longleftrightarrow> list_all (\<lambda>x. x = 0 \<or> x = 1) xs"

text \<open>
  The number of positions at which an actual label and the prediction beside it satisfy a condition.
\<close>

definition count_where :: "(real \<Rightarrow> real \<Rightarrow> bool) \<Rightarrow> real list \<Rightarrow> real list \<Rightarrow> nat" where
  "count_where P actual predicted = length (filter (\<lambda>(a, p). P a p) (zip actual predicted))"

text \<open>
  The rows of a table in the order in which the shuffle, seeded with \<open>seed\<close>, leaves them.
\<close>

definition shuffled_rows :: "'g numpy_random \<Rightarrow> int \<Rightarrow> dataframe \<Rightarrow> real list list" where
  "shuffled_rows np seed df = fst (np_random_shuffle np (seed_state np seed) (rows df))"

text \<open>
  The index \<open>floor(total_rows * (1 - test_size))\<close>.
\<close>

definition cut_index :: "nat \<Rightarrow> real \<Rightarrow> nat" where
  "cut_index total_rows test_size = nat \<lfloor>real total_rows * (1 - test_size)\<rfloor>"

text \<open>
  The real number a float stands for, and its mantissa.
\<close>

fun float_val :: "float64 \<Rightarrow> real" where
  "float_val (Dyadic m e) =
     (if 0 \<le> e then of_int (m * 2 ^ nat e) else of_int m / 2 ^ nat (- e))"

fun mantissa :: "float64 \<Rightarrow> int" where
  "mantissa (Dyadic m e) = m"

text \<open>
  The index \<open>floor(total_rows * (1 - test_size))\<close> with the difference and the product
  each rounded to a float64, as float arithmetic computes them.
\<close>

definition float_cut_index :: "nat \<Rightarrow> float64 \<Rightarrow> nat" where
  "float_cut_index total_rows test_size =
     nat \<lfloor>float_val (float_mul (float_of_int (int total_rows))
                                  (float_sub (float_of_int 1) test_size))\<rfloor>"

text \<open>
  The numbers of training and of test rows in a result.
\<close>

definition partition_sizes :: "py_error + split_result \<Rightarrow> py_error + nat \<times> nat" where
  "partition_sizes r =
     (case r of
        Inl e \<Rightarrow> Inl e
      | Inr ((train_features, train_labels), (test_features, test_labels)) \<Rightarrow>
          Inr (length train_features, length test_features))"

text \<open>
  Feature rows with their labels put back as the last column.
\<close>

definition with_labels :: "real list list \<Rightarrow> real list \<Rightarrow> real list list" where
  "with_labels features labels = map (\<lambda>(f, l). f @ [l]) (zip features labels)"

section \<open>Example inputs\<close>

text \<open>
  A generator for the examples: its shuffle reverses the rows, whatever the seed.
\<close>

definition reversing_generator :: "nat numpy_random" where
  "reversing_generator = \<lparr>seed_state = (\<lambda>s. nat s), shuffle_order = (\<lambda>g n. (rev [0..<n], Suc g))\<rparr>"

text \<open>
  A generator whose shuffle depends on its state: it rotates the rows by as many places
  as the state says, and a seed sets the state to the seed.
\<close>

definition rotating_generator :: "nat numpy_random" where
  "rotating_generator = \<lparr>seed_state = (\<lambda>s. nat s), shuffle_order = (\<lambda>g n. (rotate g [0..<n], Suc g))\<rparr>"

text \<open>
  The float64 nearest to 0.3, which is what Python reads \<^verbatim>\<open>0.3\<close> as, and the
  default \<^verbatim>\<open>test_size=0.3\<close>.
\<close>

definition float_three_tenths :: float64 where
  "float_three_tenths = Dyadic 5404319552844595 (- 54)"

definition default_test_size :: py_number where
  "default_test_size = PyFloat float_three_tenths"

text \<open>
  Tables for the examples. The first has the dtypes of the credit-card data (float64
  features, an int64 \<^verbatim>\<open>Class\<close>); in the second every column is float64.
\<close>

definition df_mixed :: dataframe where
  "df_mixed = \<lparr>columns = [''Amount'', ''Class''], dtypes = [Float64, Int64],
     rows = [[10, 0], [25, 1], [40, 0]]\<rparr>"

definition df_floats :: dataframe where
  "df_floats = \<lparr>columns = [''Amount'', ''Class''], dtypes = [Float64, Float64],
     rows = [[10, 0], [25, 1], [40, 0]]\<rparr>"

text \<open>
  Tables of 100 and of 90 rows: row \<open>i\<close> has the amount \<open>i\<close> and the label \<open>i mod 2\<close>.
\<close>

definition df_hundred :: dataframe where
  "df_hundred = \<lparr>columns = [''Amount'', ''Class''], dtypes = [Float64, Int64],
     rows = map (\<lambda>i. [real i, real (i mod 2)]) [0..<100]\<rparr>"

definition df_ninety :: dataframe where
  "df_ninety = \<lparr>columns = [''Amount'', ''Class''], dtypes = [Float64, Int64],
     rows = map (\<lambda>i. [real i, real (i mod 2)]) [0..<90]\<rparr>"

definition ten_rows :: dataframe where
  "ten_rows = \<lparr>columns = [''Amount'', ''Class''], dtypes = [Float64, Int64],
     rows = [[5, 0], [12, 0], [7, 0], [950, 1], [3, 0], [44, 0], [18, 0], [60, 0], [9, 0], [21, 0]]\<rparr>"

text \<open>
  A predictor for the examples: it reports the first feature of a row as its label.
\<close>

definition first_feature_predictor :: "real list list \<Rightarrow> real list" where
  "first_feature_predictor batch = map hd batch"

section \<open>Properties of the fraud ratio\<close>

lemma mask_select_filter:
  "map fst (filter snd (zip xs (map P xs))) = filter P xs"
  by (induction xs) auto

lemma getitem_mask_column:
  "getitem_mask df (map (\<lambda>r. r ! i = c) (rows df)) = filter (\<lambda>r. r ! i = c) (rows df)"
  by (simp add: getitem_mask_def mask_select_filter)

text \<open>
  Claim C4. For every non-empty table with a \<^verbatim>\<open>Class\<close> column,
  \<^verbatim>\<open>fraudulent_percentage\<close> returns the number of rows whose \<^verbatim>\<open>Class\<close> is 1
  divided by the number of rows; the ratio lies in [0, 1]; the ratio times the number of
  rows rounds to the number of fraud rows; and a table of 10 rows with exactly 1 fraud
  row gives 1/10.
\<close>

theorem fraudulent_percentage_ratio:
  assumes "get_loc ''Class'' (columns df) = Some i" and "rows df \<noteq> []"
  shows "\<exists>ratio. fraudulent_percentage df = Inr ratio
           \<and> ratio = real (length (filter (\<lambda>r. r ! i = 1) (rows df))) / real (length (rows df))
           \<and> 0 \<le> ratio \<and> ratio \<le> 1
           \<and> round (ratio * real (length (rows df))) = int (length (filter (\<lambda>r. r ! i = 1) (rows df)))
           \<and> (length (rows df) = 10 \<and> length (filter (\<lambda>r. r ! i = 1) (rows df)) = 1 \<longrightarrow> ratio = 1 / 10)"
proof -
  let ?fraud = "length (filter (\<lambda>r. r ! i = 1) (rows df))"
  let ?total = "length (rows df)"
  have total: "0 < ?total" using assms(2) by simp
  have le: "?fraud \<le> ?total" by (rule length_filter_le)
  have res: "fraudulent_percentage df = Inr (real ?fraud / real ?total)"
    using assms total
    by (simp add: fraudulent_percentage_def getitem_column_def comp_def getitem_mask_column py_truediv_def)
  have lower: "0 \<le> real ?fraud / real ?total" by simp
  have upper: "real ?fraud / real ?total \<le> 1" using total le by (simp add: divide_le_eq_1)
  have prod: "real ?fraud / real ?total * real ?total = real ?fraud" using total by simp
  have rnd: "round (real ?fraud / real ?total * real ?total) = int ?fraud"
    unfolding prod by (metis of_int_of_nat_eq round_of_int)
  have ten: "?total = 10 \<and> ?fraud = 1 \<longrightarrow> real ?fraud / real ?total = 1 / 10" by simp
  from res lower upper rnd ten show ?thesis by blast
qed

theorem fraudulent_percentage_ratio_witness:
  "get_loc ''Class'' (columns ten_rows) = Some 1 \<and> rows ten_rows \<noteq> []
   \<and> length (rows ten_rows) = 10 \<and> length (filter (\<lambda>r. r ! 1 = 1) (rows ten_rows)) = 1
   \<and> fraudulent_percentage ten_rows = Inr (1 / 10)"
proof -
  have loc: "get_loc ''Class'' (columns ten_rows) = Some 1" by (simp add: ten_rows_def)
  have ne: "rows ten_rows \<noteq> []" by (simp add: ten_rows_def)
  have n: "length (rows ten_rows) = 10" by (simp add: ten_rows_def)
  have c: "length (filter (\<lambda>r. r ! 1 = 1) (rows ten_rows)) = 1" by (simp add: ten_rows_def)
  from fraudulent_percentage_ratio [OF loc ne] n c
  have "fraudulent_percentage ten_rows = Inr (1 / 10)" by auto
  with loc ne n c show ?thesis by simp
qed

section \<open>Properties of the shuffle and the slices\<close>

lemma shuffle_ok_mset:
  assumes "shuffle_ok np seed n"
  shows "mset (fst (shuffle_order np (seed_state np seed) n)) = mset [0..<n]"
proof -
  have "mset (sort (fst (shuffle_order np (seed_state np seed) n))) = mset [0..<n]"
    using assms by (simp only: shuffle_ok_def)
  then show ?thesis by simp
qed

lemma shuffled_rows_eq:
  "shuffled_rows np seed df =
     map (\<lambda>i. rows df ! i) (fst (shuffle_order np (seed_state np seed) (length (rows df))))"
  by (simp add: shuffled_rows_def np_random_shuffle_def split: prod.splits)

lemma mset_shuffled_rows:
  assumes "shuffle_ok np seed (length (rows df))"
  shows "mset (shuffled_rows np seed df) = mset (rows df)"
proof -
  let ?order = "fst (shuffle_order np (seed_state np seed) (length (rows df)))"
  have "mset (map (\<lambda>i. rows df ! i) ?order) = image_mset (\<lambda>i. rows df ! i) (mset ?order)"
    by simp
  also have "\<dots> = image_mset (\<lambda>i. rows df ! i) (mset [0..<length (rows df)])"
    by (simp only: shuffle_ok_mset [OF assms])
  also have "\<dots> = mset (map (\<lambda>i. rows df ! i) [0..<length (rows df)])"
    by simp
  also have "\<dots> = mset (rows df)"
    by (simp only: map_nth)
  finally show ?thesis by (simp only: shuffled_rows_eq)
qed

lemma length_shuffled_rows:
  assumes "shuffle_ok np seed (length (rows df))"
  shows "length (shuffled_rows np seed df) = length (rows df)"
  using mset_shuffled_rows [OF assms] by (rule mset_eq_length)

lemma set_shuffled_rows:
  assumes "shuffle_ok np seed (length (rows df))"
  shows "set (shuffled_rows np seed df) = set (rows df)"
  using mset_shuffled_rows [OF assms] by (rule mset_eq_setD)

lemma reversing_generator_ok: "shuffle_ok reversing_generator seed n"
proof -
  have "sort (rev [0..<n]) = [0..<n]"
    by (rule properties_for_sort) simp_all
  then show ?thesis by (simp add: shuffle_ok_def reversing_generator_def)
qed

lemma slice_to_from: "slice_to k xs @ slice_from k xs = xs"
  by (simp add: slice_to_def slice_from_def)

lemma slice_index_le: "slice_index k n \<le> n"
  unfolding slice_index_def by (cases "k < 0") (auto simp: max_def)

lemma length_slice_to: "length (slice_to k xs) = slice_index k (length xs)"
  by (simp add: slice_to_def slice_index_le)

lemma slice_at_nat:
  "slice_to (int k) xs = take k xs"
  "slice_from (int k) xs = drop k xs"
  by (simp_all add: slice_to_def slice_from_def slice_index_def min_def)

lemma mset_rotate_same: "mset (rotate k xs) = mset xs"
proof -
  have "mset (rotate k xs) = mset (drop (k mod length xs) xs @ take (k mod length xs) xs)"
    by (simp only: rotate_drop_take)
  also have "\<dots> = mset (take (k mod length xs) xs @ drop (k mod length xs) xs)"
    by (simp only: mset_append add.commute)
  also have "\<dots> = mset xs"
    by (simp only: append_take_drop_id)
  finally show ?thesis .
qed

lemma rotating_generator_ok: "shuffle_ok rotating_generator seed n"
proof -
  have "mset [0..<n] = mset (rotate (nat seed) [0..<n])"
    by (simp only: mset_rotate_same)
  then have "sort (rotate (nat seed) [0..<n]) = [0..<n]"
    by (rule properties_for_sort) simp
  then show ?thesis by (simp add: shuffle_ok_def rotating_generator_def)
qed

lemma mantissa_round_nonneg:
  assumes "0 \<le> m"
  shows "0 \<le> mantissa (round_to_float64 m e)"
proof -
  have "0 \<le> sgn m * q" if "0 \<le> q" for q
    using assms that by (simp add: sgn_if)
  moreover have "0 \<le> \<bar>m\<bar> div 2 ^ k" for k :: nat
    by (simp add: pos_imp_zdiv_nonneg_iff)
  ultimately show ?thesis
    using assms by (simp add: round_to_float64_def Let_def)
qed

lemma float_of_int_nonneg: "0 \<le> k \<Longrightarrow> 0 \<le> mantissa (float_of_int k)"
  by (simp add: float_of_int_def mantissa_round_nonneg)

lemma float_mul_nonneg:
  assumes "0 \<le> mantissa x" and "0 \<le> mantissa y"
  shows "0 \<le> mantissa (float_mul x y)"
  using assms by (cases x; cases y) (simp add: mantissa_round_nonneg)

lemma float_of_int_one: "float_of_int 1 = Dyadic 1 0"
  by code_simp

lemma float_sub_one_nonneg:
  assumes "float_val test_size \<le> 1"
  shows "0 \<le> mantissa (float_sub (float_of_int 1) test_size)"
proof (cases test_size)
  case (Dyadic m e)
  show ?thesis
  proof (cases "0 \<le> e")
    case True
    then have "of_int (m * 2 ^ nat e) \<le> (1::real)"
      using assms Dyadic by simp
    then have "m * 2 ^ nat e \<le> 1"
      by (simp only: of_int_le_1_iff)
    with True show ?thesis
      by (simp add: Dyadic float_of_int_one min_def mantissa_round_nonneg)
  next
    case False
    then have "of_int m / 2 ^ nat (- e) \<le> (1::real)"
      using assms Dyadic by simp
    then have "of_int m \<le> (2::real) ^ nat (- e)"
      by (simp add: divide_le_eq)
    then have "of_int m \<le> (of_int (2 ^ nat (- e)) :: real)"
      by simp
    then have "m \<le> 2 ^ nat (- e)"
      by (simp only: of_int_le_iff)
    with False show ?thesis
      by (simp add: Dyadic float_of_int_one min_def mantissa_round_nonneg)
  qed
qed

lemma float_trunc_floor:
  assumes "0 \<le> mantissa x"
  shows "float_trunc x = \<lfloor>float_val x\<rfloor>"
proof (cases x)
  case (Dyadic m e)
  have m: "0 \<le> m" using assms Dyadic by simp
  show ?thesis
  proof (cases "0 \<le> e")
    case True
    then show ?thesis
      by (simp only: Dyadic float_trunc.simps float_val.simps if_True floor_of_int)
  next
    case False
    have "\<lfloor>(of_int m :: real) / of_int (2 ^ nat (- e))\<rfloor> = m div 2 ^ nat (- e)"
      by (rule floor_divide_of_int_eq)
    moreover have "sgn m * (\<bar>m\<bar> div 2 ^ nat (- e)) = m div 2 ^ nat (- e)"
      using m by (cases "m = 0") (simp_all add: sgn_if)
    ultimately show ?thesis using False by (simp add: Dyadic)
  qed
qed

lemma bit_length_bound:
  assumes "0 \<le> a" and "a < 2 ^ k"
  shows "bit_length a \<le> k"
  using assms
proof (induction k arbitrary: a)
  case 0
  then have "a = 0" by simp
  then show ?case by (simp add: bit_length.simps)
next
  case (Suc k)
  show ?case
  proof (cases "a \<le> 0")
    case True
    then show ?thesis by (simp add: bit_length.simps)
  next
    case False
    have "0 \<le> a div 2" using Suc.prems(1) by simp
    moreover have "a div 2 < 2 ^ k" using Suc.prems(2) by simp
    ultimately have "bit_length (a div 2) \<le> k" by (rule Suc.IH)
    with False show ?thesis by (subst bit_length.simps) simp
  qed
qed

lemma round_to_float64_exact:
  assumes "\<bar>m\<bar> < 2 ^ 53"
  shows "round_to_float64 m e = Dyadic m e"
proof -
  have "bit_length \<bar>m\<bar> \<le> 53"
    using assms by (intro bit_length_bound) simp_all
  then show ?thesis by (simp add: round_to_float64_def Let_def)
qed

lemma train_size_float_zero:
  assumes "n < 2 ^ 53"
  shows "py_int (py_mul (PyInt (int n)) (py_sub (PyInt 1) (PyFloat (Dyadic 0 0)))) = int n"
proof -
  have one: "py_sub (PyInt 1) (PyFloat (Dyadic 0 0)) = PyFloat (Dyadic 1 0)"
    by code_simp
  have "\<bar>int n\<bar> < 2 ^ 53" using assms by simp
  then have exact: "round_to_float64 (int n) e = Dyadic (int n) e" for e
    by (rule round_to_float64_exact)
  show ?thesis
    by (simp only: one) (simp add: float_of_int_def exact)
qed

lemma train_size_float:
  assumes "float_val test_size \<le> 1"
  shows "py_int (py_mul (PyInt (int n)) (py_sub (PyInt 1) (PyFloat test_size)))
           = int (float_cut_index n test_size)"
proof -
  let ?product = "float_mul (float_of_int (int n)) (float_sub (float_of_int 1) test_size)"
  have nonneg: "0 \<le> mantissa ?product"
    by (intro float_mul_nonneg float_of_int_nonneg float_sub_one_nonneg assms) simp
  have "0 \<le> float_trunc ?product"
    using nonneg by (cases ?product) (simp add: pos_imp_zdiv_nonneg_iff sgn_if)
  then have "0 \<le> \<lfloor>float_val ?product\<rfloor>"
    by (simp only: float_trunc_floor [OF nonneg])
  then show ?thesis
    by (simp add: float_cut_index_def float_trunc_floor [OF nonneg])
qed

lemma with_labels_split:
  assumes "\<forall>r \<in> set xs. r \<noteq> []"
  shows "with_labels (map butlast xs) (map last xs) = xs"
  using assms by (induction xs) (simp_all add: with_labels_def)

lemma wf_rows_nonempty:
  assumes "wf_df df" and "columns df \<noteq> []"
  shows "\<forall>r \<in> set (rows df). r \<noteq> []"
  using assms by (auto simp: wf_df_def list_all_iff)

lemma train_test_split_result:
  assumes "0 \<le> seed" and "seed < 2 ^ 32" and "columns (transaction_df w) \<noteq> []"
  shows "fst (train_test_split np w test_size seed) =
     Inr ((map butlast (slice_to (py_int (py_mul (PyInt (int (length (shuffled_rows np seed (transaction_df w))))) (py_sub (PyInt 1) test_size)))
                         (shuffled_rows np seed (transaction_df w))),
           map last (slice_to (py_int (py_mul (PyInt (int (length (shuffled_rows np seed (transaction_df w))))) (py_sub (PyInt 1) test_size)))
                         (shuffled_rows np seed (transaction_df w)))),
          (map butlast (slice_from (py_int (py_mul (PyInt (int (length (shuffled_rows np seed (transaction_df w))))) (py_sub (PyInt 1) test_size)))
                         (shuffled_rows np seed (transaction_df w))),
           map last (slice_from (py_int (py_mul (PyInt (int (length (shuffled_rows np seed (transaction_df w))))) (py_sub (PyInt 1) test_size)))
                         (shuffled_rows np seed (transaction_df w)))))"
  using assms
  by (simp add: train_test_split_def np_random_seed_def shuffled_rows_def Let_def split: prod.splits)

lemma train_test_split_table:
  "transaction_df (snd (train_test_split np w test_size seed)) =
     (if seed < 0 \<or> 2 ^ 32 \<le> seed then transaction_df w
      else if values_shares_memory (transaction_df w)
           then (transaction_df w)\<lparr>rows := shuffled_rows np seed (transaction_df w)\<rparr>
           else transaction_df w)"
  by (simp add: train_test_split_def np_random_seed_def shuffled_rows_def Let_def split: prod.splits)

lemma set_slice_to: "set (slice_to k xs) \<subseteq> set xs"
  by (simp add: slice_to_def set_take_subset)

lemma set_slice_from: "set (slice_from k xs) \<subseteq> set xs"
  by (simp add: slice_from_def set_drop_subset)

lemma is_binary_map_last_subset:
  assumes "is_binary (map last xs)" and "set ys \<subseteq> set xs"
  shows "is_binary (map last ys)"
  using assms by (auto simp: is_binary_def list_all_iff)

lemma slice_whole:
  "slice_to (py_int (py_mul (PyInt (int (length xs))) (py_sub (PyInt 1) (PyInt 0)))) xs = xs"
  "slice_from (py_int (py_mul (PyInt (int (length xs))) (py_sub (PyInt 1) (PyInt 0)))) xs = []"
  by (simp_all add: slice_at_nat)

section \<open>Properties of the train/test split\<close>

text \<open>
  Claim C1, as stated, fails: on a table whose columns are all float64 the first call
  shuffles the caller's table in place, and a second call on the same table with the same
  seed returns other partitions.
\<close>

theorem train_test_split_repeated_call_differs:
  "fst (train_test_split rotating_generator \<lparr>np_rng = 7, transaction_df = df_floats\<rparr>
          default_test_size 1)
     = Inr (([[25], [40]], [1, 0]), ([[10]], [0]))
   \<and> fst (train_test_split rotating_generator
            (snd (train_test_split rotating_generator \<lparr>np_rng = 7, transaction_df = df_floats\<rparr>
                    default_test_size 1))
            default_test_size 1)
     = Inr (([[40], [10]], [0, 0]), ([[25]], [1]))"
  by code_simp

text \<open>
  Claim C1, amended. For any \<open>test_size\<close> and a fixed seed, the partitions that
  \<^verbatim>\<open>train_test_split\<close> returns depend on the table's rows, \<open>test_size\<close> and the
  seed alone: they are the same whatever state the generator was in before the call,
  since the call reseeds it. With a seed that numpy accepts and a table that has columns
  the call returns partitions. When the table's columns are not all of one dtype, repeated
  calls on the same table with the same seed return identical partitions.
\<close>

theorem train_test_split_deterministic:
  "fst (train_test_split np \<lparr>np_rng = g1, transaction_df = df\<rparr> test_size seed)
     = fst (train_test_split np \<lparr>np_rng = g2, transaction_df = df\<rparr> test_size seed)
   \<and> (0 \<le> seed \<and> seed < 2 ^ 32 \<and> columns df \<noteq> [] \<longrightarrow>
        (\<exists>r. fst (train_test_split np \<lparr>np_rng = g1, transaction_df = df\<rparr> test_size seed) = Inr r))
   \<and> (\<not> values_shares_memory df \<longrightarrow>
        fst (train_test_split np
               (snd (train_test_split np \<lparr>np_rng = g1, transaction_df = df\<rparr> test_size seed))
               test_size seed)
          = fst (train_test_split np \<lparr>np_rng = g1, transaction_df = df\<rparr> test_size seed))"
proof (intro conjI impI)
  show "fst (train_test_split np \<lparr>np_rng = g1, transaction_df = df\<rparr> test_size seed)
     = fst (train_test_split np \<lparr>np_rng = g2, transaction_df = df\<rparr> test_size seed)"
    by (simp add: train_test_split_def Let_def split: sum.splits prod.splits)
next
  assume "0 \<le> seed \<and> seed < 2 ^ 32 \<and> columns df \<noteq> []"
  then show "\<exists>r. fst (train_test_split np \<lparr>np_rng = g1, transaction_df = df\<rparr> test_size seed) = Inr r"
    using train_test_split_result [of seed "\<lparr>np_rng = g1, transaction_df = df\<rparr>" np test_size]
    by simp
next
  assume copy: "\<not> values_shares_memory df"
  let ?w = "\<lparr>np_rng = g1, transaction_df = df\<rparr>"
  let ?w1 = "snd (train_test_split np ?w test_size seed)"
  have "transaction_df ?w1 = df"
    using copy by (simp add: train_test_split_table)
  then have "?w1 = \<lparr>np_rng = np_rng ?w1, transaction_df = df\<rparr>"
    by (cases ?w1) simp
  then have "fst (train_test_split np ?w1 test_size seed)
        = fst (train_test_split np \<lparr>np_rng = np_rng ?w1, transaction_df = df\<rparr> test_size seed)"
    by simp
  also have "\<dots> = fst (train_test_split np ?w test_size seed)"
    by (simp add: train_test_split_def Let_def split: sum.splits prod.splits)
  finally show "fst (train_test_split np ?w1 test_size seed) = fst (train_test_split np ?w test_size seed)" .
qed

theorem train_test_split_deterministic_witness:
  "(0 \<le> (1::int) \<and> (1::int) < 2 ^ 32 \<and> columns df_mixed \<noteq> [])
   \<and> \<not> values_shares_memory df_mixed
   \<and> fst (train_test_split rotating_generator \<lparr>np_rng = 7, transaction_df = df_mixed\<rparr>
            default_test_size 1)
       = Inr (([[25], [40]], [1, 0]), ([[10]], [0]))
   \<and> fst (train_test_split rotating_generator \<lparr>np_rng = 8, transaction_df = df_mixed\<rparr>
            default_test_size 1)
       = Inr (([[25], [40]], [1, 0]), ([[10]], [0]))
   \<and> fst (train_test_split rotating_generator
            (snd (train_test_split rotating_generator \<lparr>np_rng = 7, transaction_df = df_mixed\<rparr>
                    default_test_size 1))
            default_test_size 1)
       = Inr (([[25], [40]], [1, 0]), ([[10]], [0]))"
proof -
  have h1: "0 \<le> (1::int) \<and> (1::int) < 2 ^ 32 \<and> columns df_mixed \<noteq> []"
    by (simp add: df_mixed_def)
  have h2: "\<not> values_shares_memory df_mixed"
    by (simp add: values_shares_memory_def df_mixed_def)
  have v: "fst (train_test_split rotating_generator \<lparr>np_rng = 7, transaction_df = df_mixed\<rparr>
                  default_test_size 1)
       = Inr (([[25], [40]], [1, 0]), ([[10]], [0]))"
    by code_simp
  from train_test_split_deterministic [of rotating_generator 7 df_mixed default_test_size 1 8] h1 h2 v
  show ?thesis by simp
qed

text \<open>
  Claim C2, as stated, fails: for a table whose columns are all float64, \<^verbatim>\<open>.values\<close>
  is a view of the table's own storage and the shuffle reorders the caller's rows.
\<close>

theorem train_test_split_shuffles_caller_table:
  "rows (transaction_df \<lparr>np_rng = 7 :: nat, transaction_df = df_floats\<rparr>) = [[10, 0], [25, 1], [40, 0]]
   \<and> rows (transaction_df (snd (train_test_split reversing_generator
                                  \<lparr>np_rng = 7, transaction_df = df_floats\<rparr> default_test_size 1)))
       = [[40, 0], [25, 1], [10, 0]]"
  by code_simp

text \<open>
  Claim C2, amended. When the table's columns are not all of one dtype, as in the
  credit-card data, \<^verbatim>\<open>.values\<close> is a new array, and after the call the caller's
  table holds the same rows in the same order.
\<close>

theorem train_test_split_keeps_mixed_table:
  assumes "\<not> values_shares_memory (transaction_df w)"
  shows "transaction_df (snd (train_test_split np w test_size seed)) = transaction_df w"
  using assms by (simp add: train_test_split_table)

theorem train_test_split_keeps_mixed_table_witness:
  "\<not> values_shares_memory (transaction_df \<lparr>np_rng = 7 :: nat, transaction_df = df_mixed\<rparr>)
   \<and> transaction_df (snd (train_test_split reversing_generator
                            \<lparr>np_rng = 7, transaction_df = df_mixed\<rparr> default_test_size 1)) = df_mixed"
proof -
  have h: "\<not> values_shares_memory (transaction_df \<lparr>np_rng = 7 :: nat, transaction_df = df_mixed\<rparr>)"
    by (simp add: values_shares_memory_def df_mixed_def)
  from train_test_split_keeps_mixed_table [OF h, of reversing_generator default_test_size 1] h
  show ?thesis by simp
qed

text \<open>
  Claim C5. For any \<open>test_size\<close>, and so for any in (0, 1), the two partitions are
  disjoint and exhaustive: each has as many labels as feature rows, the row counts add up
  to the table's row count, the training rows (features with their labels) are the first
  positions of the shuffled table and the test rows are all the remaining positions, so
  that no position of the shuffled table is in both, and together they hold the rows of
  the table, each as often as the table does.
\<close>

theorem train_test_split_partition:
  assumes "0 \<le> seed" and "seed < 2 ^ 32"
      and "wf_df (transaction_df w)" and "columns (transaction_df w) \<noteq> []"
      and "shuffle_ok np seed (length (rows (transaction_df w)))"
  shows "\<exists>train_features train_labels test_features test_labels.
           fst (train_test_split np w test_size seed)
             = Inr ((train_features, train_labels), (test_features, test_labels))
           \<and> length train_labels = length train_features
           \<and> length test_labels = length test_features
           \<and> length train_features + length test_features = length (rows (transaction_df w))
           \<and> with_labels train_features train_labels
               = take (length train_features) (shuffled_rows np seed (transaction_df w))
           \<and> with_labels test_features test_labels
               = drop (length train_features) (shuffled_rows np seed (transaction_df w))
           \<and> mset (with_labels train_features train_labels) + mset (with_labels test_features test_labels)
               = mset (rows (transaction_df w))"
proof -
  let ?df = "transaction_df w"
  let ?sh = "shuffled_rows np seed ?df"
  let ?k = "py_int (py_mul (PyInt (int (length ?sh))) (py_sub (PyInt 1) test_size))"
  let ?train = "slice_to ?k ?sh" and ?test = "slice_from ?k ?sh"
  have res: "fst (train_test_split np w test_size seed)
      = Inr ((map butlast ?train, map last ?train), (map butlast ?test, map last ?test))"
    by (rule train_test_split_result [OF assms(1) assms(2) assms(4)])
  have len: "length ?sh = length (rows ?df)" by (rule length_shuffled_rows [OF assms(5)])
  have ne: "\<forall>r \<in> set ?sh. r \<noteq> []"
    using wf_rows_nonempty [OF assms(3) assms(4)] set_shuffled_rows [OF assms(5)] by simp
  have ne_train: "\<forall>r \<in> set ?train. r \<noteq> []"
    using ne by (auto simp: slice_to_def dest: in_set_takeD)
  have ne_test: "\<forall>r \<in> set ?test. r \<noteq> []"
    using ne by (auto simp: slice_from_def dest: in_set_dropD)
  have join_train: "with_labels (map butlast ?train) (map last ?train) = ?train"
    by (rule with_labels_split [OF ne_train])
  have join_test: "with_labels (map butlast ?test) (map last ?test) = ?test"
    by (rule with_labels_split [OF ne_test])
  have train_take: "?train = take (length (map butlast ?train)) ?sh"
    by (simp add: length_slice_to) (simp add: slice_to_def)
  have test_drop: "?test = drop (length (map butlast ?train)) ?sh"
    by (simp add: length_slice_to) (simp add: slice_from_def)
  have sizes: "length (map butlast ?train) + length (map butlast ?test) = length (rows ?df)"
    using len slice_index_le [of ?k "length ?sh"]
    by (simp add: length_slice_to) (simp add: slice_from_def)
  have "mset ?train + mset ?test = mset (?train @ ?test)" by simp
  also have "\<dots> = mset ?sh" by (simp only: slice_to_from)
  also have "\<dots> = mset (rows ?df)" by (rule mset_shuffled_rows [OF assms(5)])
  finally have msets: "mset ?train + mset ?test = mset (rows ?df)" .
  show ?thesis
  proof (intro exI conjI)
    show "fst (train_test_split np w test_size seed)
      = Inr ((map butlast ?train, map last ?train), (map butlast ?test, map last ?test))"
      by (rule res)
    show "length (map last ?train) = length (map butlast ?train)" by simp
    show "length (map last ?test) = length (map butlast ?test)" by simp
    show "length (map butlast ?train) + length (map butlast ?test) = length (rows ?df)"
      by (rule sizes)
    show "with_labels (map butlast ?train) (map last ?train) = take (length (map butlast ?train)) ?sh"
      using join_train train_take by simp
    show "with_labels (map butlast ?test) (map last ?test) = drop (length (map butlast ?train)) ?sh"
      using join_test test_drop by simp
    show "mset (with_labels (map butlast ?train) (map last ?train))
            + mset (with_labels (map butlast ?test) (map last ?test)) = mset (rows ?df)"
      using msets by (simp only: join_train join_test)
  qed
qed

theorem train_test_split_partition_witness:
  "0 \<le> (1::int) \<and> (1::int) < 2 ^ 32
   \<and> wf_df (transaction_df \<lparr>np_rng = 7 :: nat, transaction_df = df_mixed\<rparr>)
   \<and> columns (transaction_df \<lparr>np_rng = 7 :: nat, transaction_df = df_mixed\<rparr>) \<noteq> []
   \<and> shuffle_ok reversing_generator 1 (length (rows (transaction_df \<lparr>np_rng = 7 :: nat, transaction_df = df_mixed\<rparr>)))
   \<and> (\<exists>train_features train_labels test_features test_labels.
         fst (train_test_split reversing_generator \<lparr>np_rng = 7, transaction_df = df_mixed\<rparr> default_test_size 1)
             = Inr ((train_features, train_labels), (test_features, test_labels))
         \<and> length train_features + length test_features = 3
         \<and> mset (with_labels train_features train_labels) + mset (with_labels test_features test_labels)
               = mset [[10, 0], [25, 1], [40, 0]])"
proof -
  let ?w = "\<lparr>np_rng = 7 :: nat, transaction_df = df_mixed\<rparr>"
  have h1: "0 \<le> (1::int)" and h2: "(1::int) < 2 ^ 32" by simp_all
  have h3: "wf_df (transaction_df ?w)" by (simp add: wf_df_def df_mixed_def)
  have h4: "columns (transaction_df ?w) \<noteq> []" by (simp add: df_mixed_def)
  have h5: "shuffle_ok reversing_generator 1 (length (rows (transaction_df ?w)))"
    by (rule reversing_generator_ok)
  have r: "rows (transaction_df ?w) = [[10, 0], [25, 1], [40, 0]]" by (simp add: df_mixed_def)
  have "\<exists>train_features train_labels test_features test_labels.
         fst (train_test_split reversing_generator ?w default_test_size 1)
             = Inr ((train_features, train_labels), (test_features, test_labels))
         \<and> length train_features + length test_features = 3
         \<and> mset (with_labels train_features train_labels) + mset (with_labels test_features test_labels)
               = mset [[10, 0], [25, 1], [40, 0]]"
    using train_test_split_partition [OF h1 h2 h3 h4 h5, of default_test_size] unfolding r
    by (elim exE conjE) (intro exI conjI, assumption, simp, assumption)
  with h1 h2 h3 h4 h5 show ?thesis by (intro conjI)
qed

text \<open>
  Claim C6, as stated, fails: the difference and the product are float64 operations, each
  rounded, and the rounded product can fall just below an integer that the exact product
  reaches. With 90 rows and \<^verbatim>\<open>test_size=0.3\<close> the exact product has floor 63,
  and the call returns 62 training rows and 28 test rows.
\<close>

theorem train_test_split_cut_ninety_rows:
  "cut_index 90 (float_val float_three_tenths) = 63
   \<and> cut_index 90 (3 / 10) = 63
   \<and> partition_sizes (fst (train_test_split rotating_generator
                              \<lparr>np_rng = 7, transaction_df = df_ninety\<rparr> default_test_size 1))
       = Inr (62, 28)"
proof (intro conjI)
  show "cut_index 90 (float_val float_three_tenths) = 63"
    by (simp add: cut_index_def float_three_tenths_def)
  show "cut_index 90 (3 / 10) = 63"
    by (simp add: cut_index_def)
  show "partition_sizes (fst (train_test_split rotating_generator
                              \<lparr>np_rng = 7, transaction_df = df_ninety\<rparr> default_test_size 1))
       = Inr (62, 28)"
    by code_simp
qed

text \<open>
  Claim C6, amended. For a float \<open>test_size\<close> in (0, 1), \<^verbatim>\<open>train_test_split\<close>
  cuts the shuffled rows at index \<open>floor(total_rows * (1 - test_size))\<close>, where the
  difference and the product are each rounded to a float64: the rows before the cut are
  the training partition and the rows from the cut on are the test partition, and in each
  the last column is the label sequence and the other columns are the feature rows. A
  table of 100 rows with \<^verbatim>\<open>test_size=0.3\<close> gives 70 training rows and 30 test rows.
\<close>

theorem train_test_split_cut:
  assumes "0 \<le> seed" and "seed < 2 ^ 32"
      and "columns (transaction_df w) \<noteq> []"
      and "shuffle_ok np seed (length (rows (transaction_df w)))"
      and "0 < float_val test_size" and "float_val test_size < 1"
  shows "fst (train_test_split np w (PyFloat test_size) seed)
           = Inr ((map butlast (take (float_cut_index (length (rows (transaction_df w))) test_size)
                                     (shuffled_rows np seed (transaction_df w))),
                   map last (take (float_cut_index (length (rows (transaction_df w))) test_size)
                                  (shuffled_rows np seed (transaction_df w)))),
                  (map butlast (drop (float_cut_index (length (rows (transaction_df w))) test_size)
                                     (shuffled_rows np seed (transaction_df w))),
                   map last (drop (float_cut_index (length (rows (transaction_df w))) test_size)
                                  (shuffled_rows np seed (transaction_df w)))))
         \<and> (length (rows (transaction_df w)) = 100 \<and> test_size = float_three_tenths \<longrightarrow>
              (\<exists>train_features train_labels test_features test_labels.
                 fst (train_test_split np w (PyFloat test_size) seed)
                   = Inr ((train_features, train_labels), (test_features, test_labels))
                 \<and> length train_features = 70 \<and> length train_labels = 70
                 \<and> length test_features = 30 \<and> length test_labels = 30))"
proof -
  let ?df = "transaction_df w"
  let ?sh = "shuffled_rows np seed ?df"
  let ?k = "float_cut_index (length (rows ?df)) test_size"
  have len: "length ?sh = length (rows ?df)" by (rule length_shuffled_rows [OF assms(4)])
  have le1: "float_val test_size \<le> 1" using assms(6) by simp
  have size: "py_int (py_mul (PyInt (int (length ?sh))) (py_sub (PyInt 1) (PyFloat test_size)))
                = int ?k"
    using train_size_float [OF le1, of "length ?sh"] by (simp only: len)
  have res: "fst (train_test_split np w (PyFloat test_size) seed)
           = Inr ((map butlast (take ?k ?sh), map last (take ?k ?sh)),
                  (map butlast (drop ?k ?sh), map last (drop ?k ?sh)))"
    using train_test_split_result [OF assms(1) assms(2) assms(3), of np "PyFloat test_size"]
    by (simp only: size slice_at_nat)
  have scenario: "length (rows ?df) = 100 \<and> test_size = float_three_tenths \<longrightarrow>
              (\<exists>train_features train_labels test_features test_labels.
                 fst (train_test_split np w (PyFloat test_size) seed)
                   = Inr ((train_features, train_labels), (test_features, test_labels))
                 \<and> length train_features = 70 \<and> length train_labels = 70
                 \<and> length test_features = 30 \<and> length test_labels = 30)"
  proof
    assume h: "length (rows ?df) = 100 \<and> test_size = float_three_tenths"
    have "py_int (py_mul (PyInt 100) (py_sub (PyInt 1) (PyFloat float_three_tenths))) = 70"
      by code_simp
    then have "int (float_cut_index 100 float_three_tenths) = 70"
      using train_size_float [of float_three_tenths 100] by (simp add: float_three_tenths_def)
    then have k: "?k = 70"
      unfolding conjunct1 [OF h] conjunct2 [OF h] by simp
    have n: "length ?sh = 100" using len h by simp
    show "\<exists>train_features train_labels test_features test_labels.
                 fst (train_test_split np w (PyFloat test_size) seed)
                   = Inr ((train_features, train_labels), (test_features, test_labels))
                 \<and> length train_features = 70 \<and> length train_labels = 70
                 \<and> length test_features = 30 \<and> length test_labels = 30"
      by (intro exI conjI, rule res) (simp_all add: k n)
  qed
  from res scenario show ?thesis by (rule conjI)
qed

theorem train_test_split_cut_witness:
  "0 \<le> (1::int) \<and> (1::int) < 2 ^ 32
   \<and> columns (transaction_df \<lparr>np_rng = 7 :: nat, transaction_df = df_hundred\<rparr>) \<noteq> []
   \<and> shuffle_ok rotating_generator 1
        (length (rows (transaction_df \<lparr>np_rng = 7 :: nat, transaction_df = df_hundred\<rparr>)))
   \<and> 0 < float_val float_three_tenths \<and> float_val float_three_tenths < 1
   \<and> length (rows (transaction_df \<lparr>np_rng = 7 :: nat, transaction_df = df_hundred\<rparr>)) = 100
   \<and> fst (train_test_split rotating_generator \<lparr>np_rng = 7, transaction_df = df_hundred\<rparr>
            (PyFloat float_three_tenths) 1)
       = Inr ((map (\<lambda>i. [real i]) [1..<71], map (\<lambda>i. real (i mod 2)) [1..<71]),
              (map (\<lambda>i. [real i]) ([71..<100] @ [0]), map (\<lambda>i. real (i mod 2)) ([71..<100] @ [0])))"
proof -
  let ?w = "\<lparr>np_rng = 7 :: nat, transaction_df = df_hundred\<rparr>"
  have h1: "0 \<le> (1::int)" and h2: "(1::int) < 2 ^ 32" by simp_all
  have h3: "columns (transaction_df ?w) \<noteq> []" by (simp add: df_hundred_def)
  have h4: "shuffle_ok rotating_generator 1 (length (rows (transaction_df ?w)))"
    by (rule rotating_generator_ok)
  have h5: "0 < float_val float_three_tenths" and h6: "float_val float_three_tenths < 1"
    by (simp_all add: float_three_tenths_def)
  have n: "length (rows (transaction_df ?w)) = 100" by (simp add: df_hundred_def)
  have parts:
    "Inr ((map butlast (take (float_cut_index (length (rows (transaction_df ?w))) float_three_tenths)
                             (shuffled_rows rotating_generator 1 (transaction_df ?w))),
           map last (take (float_cut_index (length (rows (transaction_df ?w))) float_three_tenths)
                          (shuffled_rows rotating_generator 1 (transaction_df ?w)))),
          (map butlast (drop (float_cut_index (length (rows (transaction_df ?w))) float_three_tenths)
                             (shuffled_rows rotating_generator 1 (transaction_df ?w))),
           map last (drop (float_cut_index (length (rows (transaction_df ?w))) float_three_tenths)
                          (shuffled_rows rotating_generator 1 (transaction_df ?w)))))
       = (Inr ((map (\<lambda>i. [real i]) [1..<71], map (\<lambda>i. real (i mod 2)) [1..<71]),
              (map (\<lambda>i. [real i]) ([71..<100] @ [0]), map (\<lambda>i. real (i mod 2)) ([71..<100] @ [0])))
           :: py_error + split_result)"
    by code_simp
  have "fst (train_test_split rotating_generator ?w (PyFloat float_three_tenths) 1)
       = Inr ((map (\<lambda>i. [real i]) [1..<71], map (\<lambda>i. real (i mod 2)) [1..<71]),
              (map (\<lambda>i. [real i]) ([71..<100] @ [0]), map (\<lambda>i. real (i mod 2)) ([71..<100] @ [0])))"
    using conjunct1 [OF train_test_split_cut [OF h1 h2 h3 h4 h5 h6]] by (simp only: parts)
  with h1 h2 h3 h4 h5 h6 n show ?thesis by (intro conjI)
qed

text \<open>
  Claim C7. If every label (last column) of the table is 0 or 1, then every entry of the
  training labels and of the test labels that \<^verbatim>\<open>train_test_split\<close> returns is 0
  or 1.
\<close>

theorem train_test_split_labels_binary:
  assumes "0 \<le> seed" and "seed < 2 ^ 32"
      and "columns (transaction_df w) \<noteq> []"
      and "shuffle_ok np seed (length (rows (transaction_df w)))"
      and "is_binary (map last (rows (transaction_df w)))"
  shows "\<exists>train_features train_labels test_features test_labels.
           fst (train_test_split np w test_size seed)
             = Inr ((train_features, train_labels), (test_features, test_labels))
           \<and> is_binary train_labels \<and> is_binary test_labels"
proof -
  let ?df = "transaction_df w"
  let ?sh = "shuffled_rows np seed ?df"
  let ?k = "py_int (py_mul (PyInt (int (length ?sh))) (py_sub (PyInt 1) test_size))"
  have same: "set ?sh = set (rows ?df)" by (rule set_shuffled_rows [OF assms(4)])
  have train: "is_binary (map last (slice_to ?k ?sh))"
    using set_slice_to [of ?k ?sh] same
    by (intro is_binary_map_last_subset [OF assms(5)]) simp
  have test: "is_binary (map last (slice_from ?k ?sh))"
    using set_slice_from [of ?k ?sh] same
    by (intro is_binary_map_last_subset [OF assms(5)]) simp
  show ?thesis
    by (intro exI conjI, rule train_test_split_result [OF assms(1) assms(2) assms(3)])
       (rule train, rule test)
qed

theorem train_test_split_labels_binary_witness:
  "0 \<le> (1::int) \<and> (1::int) < 2 ^ 32
   \<and> columns (transaction_df \<lparr>np_rng = 7 :: nat, transaction_df = df_mixed\<rparr>) \<noteq> []
   \<and> shuffle_ok reversing_generator 1
        (length (rows (transaction_df \<lparr>np_rng = 7 :: nat, transaction_df = df_mixed\<rparr>)))
   \<and> is_binary (map last (rows (transaction_df \<lparr>np_rng = 7 :: nat, transaction_df = df_mixed\<rparr>)))
   \<and> (\<exists>train_features train_labels test_features test_labels.
         fst (train_test_split reversing_generator \<lparr>np_rng = 7, transaction_df = df_mixed\<rparr> default_test_size 1)
           = Inr ((train_features, train_labels), (test_features, test_labels))
         \<and> is_binary train_labels \<and> is_binary test_labels)"
proof -
  let ?w = "\<lparr>np_rng = 7 :: nat, transaction_df = df_mixed\<rparr>"
  have h1: "0 \<le> (1::int)" and h2: "(1::int) < 2 ^ 32" by simp_all
  have h3: "columns (transaction_df ?w) \<noteq> []" by (simp add: df_mixed_def)
  have h4: "shuffle_ok reversing_generator 1 (length (rows (transaction_df ?w)))"
    by (rule reversing_generator_ok)
  have h5: "is_binary (map last (rows (transaction_df ?w)))"
    by (simp add: df_mixed_def is_binary_def)
  from train_test_split_labels_binary [OF h1 h2 h3 h4 h5, of default_test_size] h1 h2 h3 h4 h5
  show ?thesis by (intro conjI)
qed

text \<open>
  Claim C10. \<^verbatim>\<open>train_test_split\<close> does not check \<open>test_size\<close>: with
  \<open>test_size = 0\<close> the call raises nothing, the test partition is empty, and the
  training partition holds every row of the table (all the shuffled rows). This is so for
  the int \<open>0\<close>, and the float \<open>0.0\<close> gives the same result on a table of fewer than
  \<open>2 ^ 53\<close> rows, whose row count is a float64.
\<close>

theorem train_test_split_zero_test_size:
  assumes "0 \<le> seed" and "seed < 2 ^ 32"
      and "wf_df (transaction_df w)" and "columns (transaction_df w) \<noteq> []"
      and "shuffle_ok np seed (length (rows (transaction_df w)))"
  shows "(\<exists>train_features train_labels.
           fst (train_test_split np w (PyInt 0) seed) = Inr ((train_features, train_labels), ([], []))
           \<and> length train_features = length (rows (transaction_df w))
           \<and> length train_labels = length (rows (transaction_df w))
           \<and> with_labels train_features train_labels = shuffled_rows np seed (transaction_df w)
           \<and> mset (with_labels train_features train_labels) = mset (rows (transaction_df w)))
         \<and> (length (rows (transaction_df w)) < 2 ^ 53 \<longrightarrow>
              fst (train_test_split np w (PyFloat (Dyadic 0 0)) seed)
                = fst (train_test_split np w (PyInt 0) seed))"
proof -
  let ?df = "transaction_df w"
  let ?sh = "shuffled_rows np seed ?df"
  have res: "fst (train_test_split np w (PyInt 0) seed) = Inr ((map butlast ?sh, map last ?sh), ([], []))"
    using train_test_split_result [OF assms(1) assms(2) assms(4), of np "PyInt 0"]
    by (simp only: slice_whole list.map)
  have len: "length ?sh = length (rows ?df)" by (rule length_shuffled_rows [OF assms(5)])
  have ne: "\<forall>r \<in> set ?sh. r \<noteq> []"
    using wf_rows_nonempty [OF assms(3) assms(4)] set_shuffled_rows [OF assms(5)] by simp
  have joined: "with_labels (map butlast ?sh) (map last ?sh) = ?sh"
    by (rule with_labels_split [OF ne])
  have int_zero: "\<exists>train_features train_labels.
           fst (train_test_split np w (PyInt 0) seed) = Inr ((train_features, train_labels), ([], []))
           \<and> length train_features = length (rows ?df)
           \<and> length train_labels = length (rows ?df)
           \<and> with_labels train_features train_labels = ?sh
           \<and> mset (with_labels train_features train_labels) = mset (rows ?df)"
  proof (intro exI conjI)
    show "fst (train_test_split np w (PyInt 0) seed) = Inr ((map butlast ?sh, map last ?sh), ([], []))"
      by (rule res)
    show "length (map butlast ?sh) = length (rows ?df)" using len by simp
    show "length (map last ?sh) = length (rows ?df)" using len by simp
    show "with_labels (map butlast ?sh) (map last ?sh) = ?sh" by (rule joined)
    show "mset (with_labels (map butlast ?sh) (map last ?sh)) = mset (rows ?df)"
      using mset_shuffled_rows [OF assms(5)] by (simp only: joined)
  qed
  have float_zero: "length (rows ?df) < 2 ^ 53 \<longrightarrow>
              fst (train_test_split np w (PyFloat (Dyadic 0 0)) seed)
                = fst (train_test_split np w (PyInt 0) seed)"
  proof
    assume "length (rows ?df) < 2 ^ 53"
    then have "length ?sh < 2 ^ 53" by (simp only: len)
    then have "py_int (py_mul (PyInt (int (length ?sh))) (py_sub (PyInt 1) (PyFloat (Dyadic 0 0))))
                 = int (length ?sh)"
      by (rule train_size_float_zero)
    then have "fst (train_test_split np w (PyFloat (Dyadic 0 0)) seed)
                 = Inr ((map butlast ?sh, map last ?sh), ([], []))"
      using train_test_split_result [OF assms(1) assms(2) assms(4), of np "PyFloat (Dyadic 0 0)"]
      by (simp add: slice_at_nat)
    then show "fst (train_test_split np w (PyFloat (Dyadic 0 0)) seed)
                 = fst (train_test_split np w (PyInt 0) seed)"
      by (simp only: res)
  qed
  from int_zero float_zero show ?thesis by (rule conjI)
qed

theorem train_test_split_zero_test_size_witness:
  "0 \<le> (1::int) \<and> (1::int) < 2 ^ 32
   \<and> wf_df (transaction_df \<lparr>np_rng = 7 :: nat, transaction_df = df_mixed\<rparr>)
   \<and> columns (transaction_df \<lparr>np_rng = 7 :: nat, transaction_df = df_mixed\<rparr>) \<noteq> []
   \<and> shuffle_ok reversing_generator 1
        (length (rows (transaction_df \<lparr>np_rng = 7 :: nat, transaction_df = df_mixed\<rparr>)))
   \<and> (\<exists>train_features train_labels.
         fst (train_test_split reversing_generator \<lparr>np_rng = 7, transaction_df = df_mixed\<rparr> (PyInt 0) 1)
           = Inr ((train_features, train_labels), ([], []))
         \<and> length train_features = 3
         \<and> with_labels train_features train_labels = [[40, 0], [25, 1], [10, 0]])
   \<and> length (rows (transaction_df \<lparr>np_rng = 7 :: nat, transaction_df = df_mixed\<rparr>)) < 2 ^ 53
   \<and> fst (train_test_split reversing_generator \<lparr>np_rng = 7, transaction_df = df_mixed\<rparr>
            (PyFloat (Dyadic 0 0)) 1)
       = fst (train_test_split reversing_generator \<lparr>np_rng = 7, transaction_df = df_mixed\<rparr>
                (PyInt 0) 1)"
proof -
  let ?w = "\<lparr>np_rng = 7 :: nat, transaction_df = df_mixed\<rparr>"
  have h1: "0 \<le> (1::int)" and h2: "(1::int) < 2 ^ 32" by simp_all
  have h3: "wf_df (transaction_df ?w)" by (simp add: wf_df_def df_mixed_def)
  have h4: "columns (transaction_df ?w) \<noteq> []" by (simp add: df_mixed_def)
  have h5: "shuffle_ok reversing_generator 1 (length (rows (transaction_df ?w)))"
    by (rule reversing_generator_ok)
  have sh: "shuffled_rows reversing_generator 1 (transaction_df ?w) = [[40, 0], [25, 1], [10, 0]]"
    by code_simp
  have n: "length (rows (transaction_df ?w)) = 3" by (simp add: df_mixed_def)
  have "\<exists>train_features train_labels.
         fst (train_test_split reversing_generator ?w (PyInt 0) 1)
           = Inr ((train_features, train_labels), ([], []))
         \<and> length train_features = 3
         \<and> with_labels train_features train_labels = [[40, 0], [25, 1], [10, 0]]"
    using conjunct1 [OF train_test_split_zero_test_size [OF h1 h2 h3 h4 h5]] unfolding sh n
    by (elim exE conjE) (intro exI conjI, assumption+)
  moreover have small: "length (rows (transaction_df ?w)) < 2 ^ 53" unfolding n by simp
  moreover have "fst (train_test_split reversing_generator ?w (PyFloat (Dyadic 0 0)) 1)
       = fst (train_test_split reversing_generator ?w (PyInt 0) 1)"
    using conjunct2 [OF train_test_split_zero_test_size [OF h1 h2 h3 h4 h5]] small by (rule mp)
  ultimately show ?thesis using h1 h2 h3 h4 h5 by (intro conjI)
qed

section \<open>Properties of the confusion counts\<close>

lemma count_true_map: "count_true (map f xs) = length (filter f xs)"
  by (induction xs) (auto simp: count_true_def)

lemma logical_and_same_length:
  "length a = length b \<Longrightarrow> logical_and a b = Inr (map (\<lambda>(x, y). x \<noteq> 0 \<and> y \<noteq> 0) (zip a b))"
  by (simp add: logical_and_def)

lemma length_one_minus: "length (one_minus xs) = length xs"
  by (simp add: one_minus_def)

lemma zip_one_minus_left: "zip (one_minus a) b = map (\<lambda>(x, y). (1 - x, y)) (zip a b)"
  by (simp add: one_minus_def zip_map1)

lemma zip_one_minus_right: "zip a (one_minus b) = map (\<lambda>(x, y). (x, 1 - y)) (zip a b)"
  by (simp add: one_minus_def zip_map2)

lemma zip_one_minus_both: "zip (one_minus a) (one_minus b) = map (\<lambda>(x, y). (1 - x, 1 - y)) (zip a b)"
  by (simp add: one_minus_def zip_map1 zip_map2 case_prod_unfold)

lemma confusion_metrics_same_length:
  assumes "length test_preds = length test_labels"
  obtains m where "confusion_metrics test_labels test_preds = Inr m"
     and "TP m = count_where (\<lambda>a p. a \<noteq> 0 \<and> p \<noteq> 0) test_labels test_preds"
     and "FP m = count_where (\<lambda>a p. a \<noteq> 1 \<and> p \<noteq> 0) test_labels test_preds"
     and "FN m = count_where (\<lambda>a p. a \<noteq> 0 \<and> p \<noteq> 1) test_labels test_preds"
     and "TN m = count_where (\<lambda>a p. a \<noteq> 1 \<and> p \<noteq> 1) test_labels test_preds"
     and "Precision m = np_true_divide (TP m) (TP m + FP m)"
     and "Recall m = np_true_divide (TP m) (TP m + FN m)"
     and "Accuracy m = np_true_divide (TP m + TN m) (TP m + FP m + TN m + FN m)"
proof -
  have eq: "length test_labels = length test_preds" using assms by simp
  have a: "logical_and test_labels test_preds
             = Inr (map (\<lambda>(x, y). x \<noteq> 0 \<and> y \<noteq> 0) (zip test_labels test_preds))"
    using eq by (rule logical_and_same_length)
  have b: "logical_and (one_minus test_labels) test_preds
             = Inr (map (\<lambda>(x, y). x \<noteq> 1 \<and> y \<noteq> 0) (zip test_labels test_preds))"
    using eq by (simp add: logical_and_same_length length_one_minus zip_one_minus_left case_prod_unfold comp_def)
  have c: "logical_and (one_minus test_labels) (one_minus test_preds)
             = Inr (map (\<lambda>(x, y). x \<noteq> 1 \<and> y \<noteq> 1) (zip test_labels test_preds))"
    using eq by (simp add: logical_and_same_length length_one_minus zip_one_minus_both case_prod_unfold comp_def)
  have d: "logical_and test_labels (one_minus test_preds)
             = Inr (map (\<lambda>(x, y). x \<noteq> 0 \<and> y \<noteq> 1) (zip test_labels test_preds))"
    using eq by (simp add: logical_and_same_length length_one_minus zip_one_minus_right case_prod_unfold comp_def)
  let ?tp = "count_where (\<lambda>a p. a \<noteq> 0 \<and> p \<noteq> 0) test_labels test_preds"
  let ?fp = "count_where (\<lambda>a p. a \<noteq> 1 \<and> p \<noteq> 0) test_labels test_preds"
  let ?fn = "count_where (\<lambda>a p. a \<noteq> 0 \<and> p \<noteq> 1) test_labels test_preds"
  let ?tn = "count_where (\<lambda>a p. a \<noteq> 1 \<and> p \<noteq> 1) test_labels test_preds"
  have "confusion_metrics test_labels test_preds =
          Inr \<lparr>TP = ?tp, FP = ?fp, FN = ?fn, TN = ?tn,
               Precision = np_true_divide ?tp (?tp + ?fp),
               Recall = np_true_divide ?tp (?tp + ?fn),
               Accuracy = np_true_divide (?tp + ?tn) (?tp + ?fp + ?tn + ?fn)\<rparr>"
    by (simp add: confusion_metrics_def a b c d count_true_map count_where_def Let_def)
  then show ?thesis
    by (rule that) simp_all
qed

lemma count_where_cong:
  assumes "\<And>a p. a \<in> set xs \<Longrightarrow> p \<in> set ys \<Longrightarrow> P a p = Q a p"
  shows "count_where P xs ys = count_where Q xs ys"
proof -
  have "filter (\<lambda>(a, p). P a p) (zip xs ys) = filter (\<lambda>(a, p). Q a p) (zip xs ys)"
  proof (rule filter_cong)
    fix x assume "x \<in> set (zip xs ys)"
    then have "fst x \<in> set xs" and "snd x \<in> set ys"
      by (auto dest: set_zip_leftD set_zip_rightD simp: prod_eq_iff intro: set_zip_leftD [of "fst x" "snd x"] set_zip_rightD [of "fst x" "snd x"])
    then show "(case x of (a, p) \<Rightarrow> P a p) = (case x of (a, p) \<Rightarrow> Q a p)"
      by (simp add: case_prod_unfold assms)
  qed simp
  then show ?thesis by (simp add: count_where_def)
qed

lemma binary_cases: "is_binary xs \<Longrightarrow> x \<in> set xs \<Longrightarrow> x = 0 \<or> x = 1"
  by (simp add: is_binary_def list_all_iff)

lemma count_where_binary:
  assumes "is_binary xs" and "is_binary ys"
  shows "count_where (\<lambda>a p. a \<noteq> 0 \<and> p \<noteq> 0) xs ys = count_where (\<lambda>a p. a = 1 \<and> p = 1) xs ys"
    and "count_where (\<lambda>a p. a \<noteq> 1 \<and> p \<noteq> 0) xs ys = count_where (\<lambda>a p. a = 0 \<and> p = 1) xs ys"
    and "count_where (\<lambda>a p. a \<noteq> 0 \<and> p \<noteq> 1) xs ys = count_where (\<lambda>a p. a = 1 \<and> p = 0) xs ys"
    and "count_where (\<lambda>a p. a \<noteq> 1 \<and> p \<noteq> 1) xs ys = count_where (\<lambda>a p. a = 0 \<and> p = 0) xs ys"
proof -
  have x: "a = 0 \<or> a = 1" if "a \<in> set xs" for a using binary_cases [OF assms(1) that] .
  have y: "p = 0 \<or> p = 1" if "p \<in> set ys" for p using binary_cases [OF assms(2) that] .
  show "count_where (\<lambda>a p. a \<noteq> 0 \<and> p \<noteq> 0) xs ys = count_where (\<lambda>a p. a = 1 \<and> p = 1) xs ys"
  proof (rule count_where_cong)
    fix a p assume "a \<in> set xs" "p \<in> set ys"
    with x y show "(a \<noteq> 0 \<and> p \<noteq> 0) = (a = 1 \<and> p = 1)" by fastforce
  qed
  show "count_where (\<lambda>a p. a \<noteq> 1 \<and> p \<noteq> 0) xs ys = count_where (\<lambda>a p. a = 0 \<and> p = 1) xs ys"
  proof (rule count_where_cong)
    fix a p assume "a \<in> set xs" "p \<in> set ys"
    with x y show "(a \<noteq> 1 \<and> p \<noteq> 0) = (a = 0 \<and> p = 1)" by fastforce
  qed
  show "count_where (\<lambda>a p. a \<noteq> 0 \<and> p \<noteq> 1) xs ys = count_where (\<lambda>a p. a = 1 \<and> p = 0) xs ys"
  proof (rule count_where_cong)
    fix a p assume "a \<in> set xs" "p \<in> set ys"
    with x y show "(a \<noteq> 0 \<and> p \<noteq> 1) = (a = 1 \<and> p = 0)" by fastforce
  qed
  show "count_where (\<lambda>a p. a \<noteq> 1 \<and> p \<noteq> 1) xs ys = count_where (\<lambda>a p. a = 0 \<and> p = 0) xs ys"
  proof (rule count_where_cong)
    fix a p assume "a \<in> set xs" "p \<in> set ys"
    with x y show "(a \<noteq> 1 \<and> p \<noteq> 1) = (a = 0 \<and> p = 0)" by fastforce
  qed
qed

lemma four_way_partition:
  assumes "\<forall>(a, p) \<in> set ps. (a = 0 \<or> a = (1::real)) \<and> (p = 0 \<or> p = (1::real))"
  shows "length (filter (\<lambda>(a, p). a = 1 \<and> p = 1) ps) + length (filter (\<lambda>(a, p). a = 0 \<and> p = 1) ps)
         + length (filter (\<lambda>(a, p). a = 0 \<and> p = 0) ps) + length (filter (\<lambda>(a, p). a = 1 \<and> p = 0) ps)
         = length ps"
  using assms
proof (induction ps)
  case Nil
  show ?case by simp
next
  case (Cons x ps)
  obtain a p where x: "x = (a, p)" by (cases x)
  have rest: "\<forall>(a, p) \<in> set ps. (a = 0 \<or> a = 1) \<and> (p = 0 \<or> p = 1)"
    using Cons.prems by simp
  have a: "a = 0 \<or> a = 1" and p: "p = 0 \<or> p = 1"
    using Cons.prems by (simp_all add: x)
  note IH = Cons.IH [OF rest]
  from a p show ?case
  proof (elim disjE)
    assume "a = 0" "p = 0" with IH show ?thesis by (simp add: x)
  next
    assume "a = 0" "p = 1" with IH show ?thesis by (simp add: x)
  next
    assume "a = 1" "p = 0" with IH show ?thesis by (simp add: x)
  next
    assume "a = 1" "p = 1" with IH show ?thesis by (simp add: x)
  qed
qed

lemma count_where_total:
  assumes "is_binary xs" and "is_binary ys" and "length ys = length xs"
  shows "count_where (\<lambda>a p. a = 1 \<and> p = 1) xs ys + count_where (\<lambda>a p. a = 0 \<and> p = 1) xs ys
         + count_where (\<lambda>a p. a = 0 \<and> p = 0) xs ys + count_where (\<lambda>a p. a = 1 \<and> p = 0) xs ys
         = length xs"
proof -
  have "\<forall>(a, p) \<in> set (zip xs ys). (a = 0 \<or> a = 1) \<and> (p = 0 \<or> p = 1)"
    using binary_cases [OF assms(1)] binary_cases [OF assms(2)]
    by (auto dest: set_zip_leftD set_zip_rightD)
  from four_way_partition [OF this] assms(3) show ?thesis
    by (simp add: count_where_def)
qed

section \<open>Properties of the evaluation\<close>

text \<open>
  Claim C3, as stated, fails: with no positive prediction at all, \<open>TP + FP = 0\<close>, and
  the precision that \<^verbatim>\<open>evaluate\<close> returns is \<open>nan\<close>.
\<close>

theorem evaluate_zero_denominator_nan:
  "evaluate first_feature_predictor [[0], [0]] [0, 1]
     = Inr \<lparr>TP = 0, FP = 0, FN = 1, TN = 1, Precision = NaN, Recall = Num 0, Accuracy = Num (1 / 2)\<rparr>"
  by code_simp

text \<open>
  Claim C3, amended. For predictions and labels of equal length \<^verbatim>\<open>evaluate\<close>
  raises nothing and returns its dictionary; a metric whose denominator is zero is
  \<open>nan\<close> in it: the precision when \<open>TP + FP = 0\<close>, the recall when \<open>TP + FN = 0\<close>,
  the accuracy when there are no labels.
\<close>

theorem evaluate_zero_denominator:
  assumes "length (predict_all predictor test_features) = length test_labels"
  shows "\<exists>m. evaluate predictor test_features test_labels = Inr m
           \<and> (TP m + FP m = 0 \<longrightarrow> Precision m = NaN)
           \<and> (TP m + FN m = 0 \<longrightarrow> Recall m = NaN)
           \<and> (TP m + FP m + TN m + FN m = 0 \<longrightarrow> Accuracy m = NaN)"
proof -
  obtain m where m: "confusion_metrics test_labels (predict_all predictor test_features) = Inr m"
    and prec: "Precision m = np_true_divide (TP m) (TP m + FP m)"
    and rec: "Recall m = np_true_divide (TP m) (TP m + FN m)"
    and acc: "Accuracy m = np_true_divide (TP m + TN m) (TP m + FP m + TN m + FN m)"
    by (rule confusion_metrics_same_length [OF assms])
  have "TP m + FP m = 0 \<longrightarrow> Precision m = NaN"
    using prec by (simp add: np_true_divide_def)
  moreover have "TP m + FN m = 0 \<longrightarrow> Recall m = NaN"
    using rec by (simp add: np_true_divide_def)
  moreover have "TP m + FP m + TN m + FN m = 0 \<longrightarrow> Accuracy m = NaN"
    using acc by (simp add: np_true_divide_def)
  ultimately show ?thesis using m by (simp add: evaluate_def)
qed

theorem evaluate_zero_denominator_witness:
  "length (predict_all first_feature_predictor [[0], [0], [0]]) = length [0, 0, 1 :: real]
   \<and> (\<exists>m. evaluate first_feature_predictor [[0], [0], [0]] [0, 0, 1] = Inr m
          \<and> TP m + FP m = 0 \<and> Precision m = NaN)"
proof -
  have h: "length (predict_all first_feature_predictor [[0], [0], [0]]) = length [0, 0, 1 :: real]"
    by code_simp
  have e: "evaluate first_feature_predictor [[0], [0], [0]] [0, 0, 1]
     = Inr \<lparr>TP = 0, FP = 0, FN = 1, TN = 2, Precision = NaN, Recall = Num 0, Accuracy = Num (2 / 3)\<rparr>"
    by code_simp
  from evaluate_zero_denominator [OF h] e h show ?thesis by auto
qed

text \<open>
  Claim C8. For binary predicted and actual label sequences of equal length, the four
  confusion counts that \<^verbatim>\<open>evaluate\<close> returns add up to the length of the label
  sequence.
\<close>

theorem evaluate_counts_sum:
  assumes "length (predict_all predictor test_features) = length test_labels"
      and "is_binary test_labels"
      and "is_binary (predict_all predictor test_features)"
  shows "\<exists>m. evaluate predictor test_features test_labels = Inr m
           \<and> TP m + FP m + TN m + FN m = length test_labels"
proof -
  let ?preds = "predict_all predictor test_features"
  obtain m where m: "confusion_metrics test_labels ?preds = Inr m"
    and tp: "TP m = count_where (\<lambda>a p. a \<noteq> 0 \<and> p \<noteq> 0) test_labels ?preds"
    and fp: "FP m = count_where (\<lambda>a p. a \<noteq> 1 \<and> p \<noteq> 0) test_labels ?preds"
    and fn: "FN m = count_where (\<lambda>a p. a \<noteq> 0 \<and> p \<noteq> 1) test_labels ?preds"
    and tn: "TN m = count_where (\<lambda>a p. a \<noteq> 1 \<and> p \<noteq> 1) test_labels ?preds"
    by (rule confusion_metrics_same_length [OF assms(1)])
  have "TP m + FP m + TN m + FN m = length test_labels"
    unfolding tp fp fn tn count_where_binary [OF assms(2) assms(3)]
    by (rule count_where_total [OF assms(2) assms(3) assms(1)])
  with m show ?thesis by (simp add: evaluate_def)
qed

theorem evaluate_counts_sum_witness:
  "length (predict_all first_feature_predictor [[1], [1], [0]]) = length [0, 1, 0 :: real]
   \<and> is_binary [0, 1, 0]
   \<and> is_binary (predict_all first_feature_predictor [[1], [1], [0]])
   \<and> (\<exists>m. evaluate first_feature_predictor [[1], [1], [0]] [0, 1, 0] = Inr m
           \<and> TP m + FP m + TN m + FN m = length [0, 1, 0 :: real])"
proof -
  have preds: "predict_all first_feature_predictor [[1], [1], [0]] = [1, 1, 0]"
    by code_simp
  have h1: "length (predict_all first_feature_predictor [[1], [1], [0]]) = length [0, 1, 0 :: real]"
    by (simp add: preds)
  have h2: "is_binary [0, 1, 0]" by (simp add: is_binary_def)
  have h3: "is_binary (predict_all first_feature_predictor [[1], [1], [0]])"
    by (simp add: preds is_binary_def)
  from evaluate_counts_sum [OF h1 h2 h3] h1 h2 h3 show ?thesis by blast
qed

text \<open>
  Claim C9. For binary predicted and actual label sequences of equal length,
  \<^verbatim>\<open>evaluate\<close> returns TP as the number of positions where actual and predicted are
  both 1, FP where actual is 0 and predicted 1, FN where actual is 1 and predicted 0, TN
  where both are 0; recall is TP/(TP+FN), precision TP/(TP+FP) and accuracy (TP+TN)/total,
  as numpy divides (a real quotient when the denominator is positive). Predictions
  [1,0,1,0] against labels [1,1,0,0] give TP = FP = FN = TN = 1 and accuracy 1/2.
\<close>

theorem evaluate_confusion_metrics:
  assumes "predict_all predictor test_features = test_preds"
      and "length test_preds = length test_labels"
      and "is_binary test_labels"
      and "is_binary test_preds"
  shows "\<exists>m. evaluate predictor test_features test_labels = Inr m
           \<and> TP m = count_where (\<lambda>a p. a = 1 \<and> p = 1) test_labels test_preds
           \<and> FP m = count_where (\<lambda>a p. a = 0 \<and> p = 1) test_labels test_preds
           \<and> FN m = count_where (\<lambda>a p. a = 1 \<and> p = 0) test_labels test_preds
           \<and> TN m = count_where (\<lambda>a p. a = 0 \<and> p = 0) test_labels test_preds
           \<and> Recall m = np_true_divide (TP m) (TP m + FN m)
           \<and> Precision m = np_true_divide (TP m) (TP m + FP m)
           \<and> Accuracy m = np_true_divide (TP m + TN m) (length test_labels)
           \<and> (0 < TP m + FN m \<longrightarrow> Recall m = Num (real (TP m) / real (TP m + FN m)))
           \<and> (0 < TP m + FP m \<longrightarrow> Precision m = Num (real (TP m) / real (TP m + FP m)))
           \<and> (0 < length test_labels \<longrightarrow>
                Accuracy m = Num (real (TP m + TN m) / real (length test_labels)))
           \<and> (test_preds = [1, 0, 1, 0] \<and> test_labels = [1, 1, 0, 0] \<longrightarrow>
                TP m = 1 \<and> FP m = 1 \<and> FN m = 1 \<and> TN m = 1 \<and> Accuracy m = Num (1 / 2))"
proof -
  obtain m where m: "confusion_metrics test_labels test_preds = Inr m"
    and tp0: "TP m = count_where (\<lambda>a p. a \<noteq> 0 \<and> p \<noteq> 0) test_labels test_preds"
    and fp0: "FP m = count_where (\<lambda>a p. a \<noteq> 1 \<and> p \<noteq> 0) test_labels test_preds"
    and fn0: "FN m = count_where (\<lambda>a p. a \<noteq> 0 \<and> p \<noteq> 1) test_labels test_preds"
    and tn0: "TN m = count_where (\<lambda>a p. a \<noteq> 1 \<and> p \<noteq> 1) test_labels test_preds"
    and prec: "Precision m = np_true_divide (TP m) (TP m + FP m)"
    and rec: "Recall m = np_true_divide (TP m) (TP m + FN m)"
    and acc0: "Accuracy m = np_true_divide (TP m + TN m) (TP m + FP m + TN m + FN m)"
    by (rule confusion_metrics_same_length [OF assms(2)])
  note bin = count_where_binary [OF assms(3) assms(4)]
  have ev: "evaluate predictor test_features test_labels = Inr m"
    using m assms(1) by (simp add: evaluate_def)
  have tp: "TP m = count_where (\<lambda>a p. a = 1 \<and> p = 1) test_labels test_preds"
    using tp0 bin(1) by simp
  have fp: "FP m = count_where (\<lambda>a p. a = 0 \<and> p = 1) test_labels test_preds"
    using fp0 bin(2) by simp
  have fn: "FN m = count_where (\<lambda>a p. a = 1 \<and> p = 0) test_labels test_preds"
    using fn0 bin(3) by simp
  have tn: "TN m = count_where (\<lambda>a p. a = 0 \<and> p = 0) test_labels test_preds"
    using tn0 bin(4) by simp
  have total: "TP m + FP m + TN m + FN m = length test_labels"
    unfolding tp fp fn tn by (rule count_where_total [OF assms(3) assms(4) assms(2)])
  have acc: "Accuracy m = np_true_divide (TP m + TN m) (length test_labels)"
    using acc0 total by simp
  have rec': "0 < TP m + FN m \<longrightarrow> Recall m = Num (real (TP m) / real (TP m + FN m))"
    using rec by (simp add: np_true_divide_def)
  have prec': "0 < TP m + FP m \<longrightarrow> Precision m = Num (real (TP m) / real (TP m + FP m))"
    using prec by (simp add: np_true_divide_def)
  have acc': "0 < length test_labels \<longrightarrow>
                Accuracy m = Num (real (TP m + TN m) / real (length test_labels))"
    using acc by (simp add: np_true_divide_def)
  have scenario: "test_preds = [1, 0, 1, 0] \<and> test_labels = [1, 1, 0, 0] \<longrightarrow>
                TP m = 1 \<and> FP m = 1 \<and> FN m = 1 \<and> TN m = 1 \<and> Accuracy m = Num (1 / 2)"
  proof
    assume "test_preds = [1, 0, 1, 0] \<and> test_labels = [1, 1, 0, 0]"
    then show "TP m = 1 \<and> FP m = 1 \<and> FN m = 1 \<and> TN m = 1 \<and> Accuracy m = Num (1 / 2)"
      using tp fp fn tn acc by (simp add: count_where_def np_true_divide_def)
  qed
  show ?thesis
    by (intro exI [of _ m] conjI) (fact ev tp fp fn tn rec prec acc rec' prec' acc' scenario)+
qed

theorem evaluate_confusion_metrics_witness:
  "predict_all first_feature_predictor [[1], [0], [1], [0]] = [1, 0, 1, 0]
   \<and> length [1, 0, 1, 0 :: real] = length [1, 1, 0, 0 :: real]
   \<and> is_binary [1, 1, 0, 0] \<and> is_binary [1, 0, 1, 0]
   \<and> (\<exists>m. evaluate first_feature_predictor [[1], [0], [1], [0]] [1, 1, 0, 0] = Inr m
          \<and> TP m = 1 \<and> FP m = 1 \<and> FN m = 1 \<and> TN m = 1
          \<and> Recall m = Num (1 / 2) \<and> Precision m = Num (1 / 2) \<and> Accuracy m = Num (1 / 2))"
proof -
  have h1: "predict_all first_feature_predictor [[1], [0], [1], [0]] = [1, 0, 1, 0]"
    by code_simp
  have h2: "length [1, 0, 1, 0 :: real] = length [1, 1, 0, 0 :: real]" by simp
  have h3: "is_binary [1, 1, 0, 0]" by (simp add: is_binary_def)
  have h4: "is_binary [1, 0, 1, 0]" by (simp add: is_binary_def)
  have "\<exists>m. evaluate first_feature_predictor [[1], [0], [1], [0]] [1, 1, 0, 0] = Inr m
          \<and> TP m = 1 \<and> FP m = 1 \<and> FN m = 1 \<and> TN m = 1
          \<and> Recall m = Num (1 / 2) \<and> Precision m = Num (1 / 2) \<and> Accuracy m = Num (1 / 2)"
    using evaluate_confusion_metrics [OF h1 h2 h3 h4]
    by (elim exE conjE) (simp add: count_where_def np_true_divide_def)
  with h1 h2 h3 h4 show ?thesis by (intro conjI)
qed

end
